theory Spec2Isabelle
  imports Main "HOL-Library.Char_ord" "HOL-Library.List_Lexorder"
begin

section \<open>tweetlib: the request and response core of twitter.go\<close>

text \<open>
  The theory embeds \<^verbatim>\<open>twitter.go\<close>: \<^verbatim>\<open>twitterErrorReply.String\<close>,
  \<^verbatim>\<open>checkResponse\<close>, \<^verbatim>\<open>CallJSON\<close>, \<^verbatim>\<open>Call\<close>, \<^verbatim>\<open>UpdateStatusWithMedia\<close> and the
  endpoint methods. Go strings and byte slices are \<^typ>\<open>string\<close> (lists of 8-bit
  characters). The functions of Go's standard library that the file calls
  (\<^verbatim>\<open>net/url\<close>, \<^verbatim>\<open>encoding/json\<close>, \<^verbatim>\<open>mime/multipart\<close>, \<^verbatim>\<open>fmt\<close>) are embedded first,
  under the names they have in Go.
\<close>

subsection \<open>Errors\<close>

text \<open>
  A Go \<^verbatim>\<open>error\<close> value is identified by its dynamic type. \<open>ErrorString\<close> is the
  type behind \<^verbatim>\<open>errors.New\<close> and \<^verbatim>\<open>fmt.Errorf\<close>; the next three are the error types
  of \<^verbatim>\<open>encoding/json\<close>; \<open>ExternalError\<close> stands for any error produced outside this
  file (the transport, a failing body reader, a custom decoder).
\<close>

datatype error =
    ErrorString string
  | SyntaxError
  | UnmarshalTypeError
  | InvalidUnmarshalError
  | ExternalError string

text \<open>A function that can panic either panics or returns.\<close>

datatype 'a outcome = Panic | Return 'a

subsection \<open>Characters and decimal numbers\<close>

definition quote :: char where "quote = CHR 0x22"
definition backslash :: char where "backslash = CHR 0x5C"
definition apostrophe :: char where "apostrophe = CHR 0x27"
definition CRLF :: string where "CRLF = [CHR 0x0D, CHR 0x0A]"

definition isDigit :: "char \<Rightarrow> bool" where
  "isDigit c \<longleftrightarrow> CHR ''0'' \<le> c \<and> c \<le> CHR ''9''"

definition isLower :: "char \<Rightarrow> bool" where
  "isLower c \<longleftrightarrow> CHR ''a'' \<le> c \<and> c \<le> CHR ''z''"

definition isUpper :: "char \<Rightarrow> bool" where
  "isUpper c \<longleftrightarrow> CHR ''A'' \<le> c \<and> c \<le> CHR ''Z''"

definition digitChar :: "nat \<Rightarrow> char" where
  "digitChar n = ''0123456789'' ! (n mod 10)"

definition digitVal :: "char \<Rightarrow> nat" where
  "digitVal c = of_char c - 48"

text \<open>\<^verbatim>\<open>%d\<close> of \<^verbatim>\<open>fmt\<close>: the decimal digits, with a minus sign for a negative number.\<close>

fun decimal :: "nat \<Rightarrow> string" where
  "decimal n = (if n < 10 then [digitChar n] else decimal (n div 10) @ [digitChar n])"

declare decimal.simps [simp del]

definition fmt_d :: "int \<Rightarrow> string" where
  "fmt_d i = (if i < 0 then CHR ''-'' # decimal (nat (- i)) else decimal (nat i))"

subsection \<open>\<^verbatim>\<open>net/url\<close>: query escaping and \<^verbatim>\<open>Values.Encode\<close>\<close>

text \<open>
  \<^verbatim>\<open>url.Values\<close> is a \<^verbatim>\<open>map[string][]string\<close>. It is an association list here; the
  order of the list is the order in which a \<^verbatim>\<open>range\<close> loop happens to visit the map.
\<close>

type_synonym Values = "(string \<times> string list) list"

definition upperhex :: string where
  "upperhex = ''0123456789ABCDEF''"

text \<open>\<^verbatim>\<open>shouldEscape(c, encodeQueryComponent)\<close>: only the unreserved characters stay.\<close>

definition shouldEscape :: "char \<Rightarrow> bool" where
  "shouldEscape c \<longleftrightarrow> \<not> (isLower c \<or> isUpper c \<or> isDigit c \<or> c \<in> set ''-_.~'')"

fun QueryEscape :: "string \<Rightarrow> string" where
  "QueryEscape [] = []"
| "QueryEscape (c # s) =
     (if shouldEscape c then
        (if c = CHR '' '' then ''+''
         else [CHR ''%'', upperhex ! ((of_char c :: nat) div 16), upperhex ! ((of_char c :: nat) mod 16)])
      else [c]) @ QueryEscape s"

fun join :: "string \<Rightarrow> string list \<Rightarrow> string" where
  "join sep [] = []"
| "join sep [x] = x"
| "join sep (x # y # xs) = x @ sep @ join sep (y # xs)"

text \<open>
  \<^verbatim>\<open>Values.Encode\<close>: the keys sorted, every value of a key in its order,
  \<^verbatim>\<open>key=value\<close> pairs joined by \<^verbatim>\<open>&\<close>.
\<close>

definition Encode :: "Values \<Rightarrow> string" where
  "Encode v = join ''&''
     (concat (map (\<lambda>(k, vs). map (\<lambda>x. QueryEscape k @ ''='' @ QueryEscape x) vs)
        (sort_key fst v)))"

subsection \<open>\<^verbatim>\<open>encoding/json\<close>: the syntax of JSON\<close>

datatype json =
    JNull
  | JBool bool
  | JNumber string
  | JString string
  | JArray "json list"
  | JObject "(string \<times> json) list"

datatype token =
    TLBrace | TRBrace | TLBrack | TRBrack | TComma | TColon
  | TString string | TNumber string | TTrue | TFalse | TNull

definition isSpace :: "char \<Rightarrow> bool" where
  "isSpace c \<longleftrightarrow> c = CHR '' '' \<or> c = CHR 0x09 \<or> c = CHR 0x0D \<or> c = CHR 0x0A"

definition hexVal :: "char \<Rightarrow> nat option" where
  "hexVal c =
     (if isDigit c then Some (of_char c - 48)
      else if CHR ''a'' \<le> c \<and> c \<le> CHR ''f'' then Some (of_char c - 87)
      else if CHR ''A'' \<le> c \<and> c \<le> CHR ''F'' then Some (of_char c - 55)
      else None)"

text \<open>\<^verbatim>\<open>getu4\<close>, applied behind the two characters \<^verbatim>\<open>\u\<close>: four hexadecimal digits.\<close>

definition getu4 :: "string \<Rightarrow> nat option" where
  "getu4 s =
     (case s of
        a # b # c # d # _ \<Rightarrow>
          (case (hexVal a, hexVal b, hexVal c, hexVal d) of
             (Some x, Some y, Some z, Some u) \<Rightarrow> Some (((x * 16 + y) * 16 + z) * 16 + u)
           | _ \<Rightarrow> None)
      | _ \<Rightarrow> None)"

definition isSimpleEscape :: "char \<Rightarrow> bool" where
  "isSimpleEscape e \<longleftrightarrow>
     e \<in> set [quote, backslash, CHR ''/'', CHR ''b'', CHR ''f'', CHR ''n'', CHR ''r'', CHR ''t'']"

text \<open>
  The body of a string literal, behind the opening quote: the raw bytes up to the
  closing quote. The scanner rejects control characters and every escape other than
  the nine of JSON.
\<close>

fun lex_string :: "string \<Rightarrow> string option" where
  "lex_string [] = None"
| "lex_string (c # s) =
     (if c = quote then Some []
      else if c = backslash then
        (case s of
           [] \<Rightarrow> None
         | e # t \<Rightarrow>
             if e = CHR ''u'' then
               (case getu4 t of
                  None \<Rightarrow> None
                | Some _ \<Rightarrow> map_option (\<lambda>raw. c # e # raw) (lex_string t))
             else if isSimpleEscape e then map_option (\<lambda>raw. c # e # raw) (lex_string t)
             else None)
      else if c < CHR 0x20 then None
      else map_option ((#) c) (lex_string s))"

text \<open>\<^verbatim>\<open>utf8.EncodeRune\<close>; a surrogate or a value beyond U+10FFFF gives U+FFFD.\<close>

definition replacementChar :: string where
  "replacementChar = [CHR 0xEF, CHR 0xBF, CHR 0xBD]"

definition encodeRune :: "nat \<Rightarrow> string" where
  "encodeRune r =
     (if r < 0x80 then [char_of r]
      else if r < 0x800 then [char_of (0xC0 + r div 64), char_of (0x80 + r mod 64)]
      else if (0xD800 \<le> r \<and> r < 0xE000) \<or> 0x10FFFF < r then replacementChar
      else if r < 0x10000 then
        [char_of (0xE0 + r div 4096), char_of (0x80 + (r div 64) mod 64), char_of (0x80 + r mod 64)]
      else
        [char_of (0xF0 + r div 262144), char_of (0x80 + (r div 4096) mod 64),
         char_of (0x80 + (r div 64) mod 64), char_of (0x80 + r mod 64)])"

definition isCont :: "char \<Rightarrow> bool" where
  "isCont c \<longleftrightarrow> CHR 0x80 \<le> c \<and> c \<le> CHR 0xBF"

text \<open>
  \<^verbatim>\<open>utf8.DecodeRune\<close> on a byte of 0x80 or more: the length of the well-formed
  sequence at the head of the input, 0 when there is none.
\<close>

definition utf8_len :: "string \<Rightarrow> nat" where
  "utf8_len s =
     (case s of
        [] \<Rightarrow> 0
      | a # t \<Rightarrow>
          if CHR 0xC2 \<le> a \<and> a \<le> CHR 0xDF then
            (case t of b # _ \<Rightarrow> if isCont b then 2 else 0 | _ \<Rightarrow> 0)
          else if CHR 0xE0 \<le> a \<and> a \<le> CHR 0xEF then
            (case t of
               b # c # _ \<Rightarrow>
                 if (if a = CHR 0xE0 then CHR 0xA0 else CHR 0x80) \<le> b
                    \<and> b \<le> (if a = CHR 0xED then CHR 0x9F else CHR 0xBF) \<and> isCont c
                 then 3 else 0
             | _ \<Rightarrow> 0)
          else if CHR 0xF0 \<le> a \<and> a \<le> CHR 0xF4 then
            (case t of
               b # c # d # _ \<Rightarrow>
                 if (if a = CHR 0xF0 then CHR 0x90 else CHR 0x80) \<le> b
                    \<and> b \<le> (if a = CHR 0xF4 then CHR 0x8F else CHR 0xBF) \<and> isCont c \<and> isCont d
                 then 4 else 0
             | _ \<Rightarrow> 0)
          else 0)"

definition simple_escape :: "char \<Rightarrow> char" where
  "simple_escape e =
     (if e = CHR ''b'' then CHR 0x08
      else if e = CHR ''f'' then CHR 0x0C
      else if e = CHR ''n'' then CHR 0x0A
      else if e = CHR ''r'' then CHR 0x0D
      else if e = CHR ''t'' then CHR 0x09
      else e)"

text \<open>The second half of a surrogate pair: \<^verbatim>\<open>getu4\<close> on an input that starts with \<^verbatim>\<open>\u\<close>.\<close>

definition getu4_escaped :: "string \<Rightarrow> nat option" where
  "getu4_escaped s =
     (case s of
        a # b # t \<Rightarrow> if a = backslash \<and> b = CHR ''u'' then getu4 t else None
      | _ \<Rightarrow> None)"

text \<open>
  \<^verbatim>\<open>unquote\<close>: the value of a scanned string literal. Escapes are replaced, a pair of
  surrogates becomes one character, a lone surrogate and every ill-formed UTF-8 byte
  become U+FFFD.
\<close>

fun unquote :: "string \<Rightarrow> string" where
  "unquote [] = []"
| "unquote (c # s) =
     (if c = backslash then
        (case s of
           [] \<Rightarrow> []
         | e # t \<Rightarrow>
             if e = CHR ''u'' then
               (case getu4 t of
                  None \<Rightarrow> []
                | Some rr \<Rightarrow>
                    if 0xD800 \<le> rr \<and> rr < 0xE000 then
                      (case getu4_escaped (drop 4 t) of
                         None \<Rightarrow> replacementChar @ unquote (drop 4 t)
                       | Some rr1 \<Rightarrow>
                           if rr < 0xDC00 \<and> 0xDC00 \<le> rr1 \<and> rr1 < 0xE000 then
                             encodeRune ((rr - 0xD800) * 1024 + (rr1 - 0xDC00) + 0x10000)
                               @ unquote (drop 10 t)
                           else replacementChar @ unquote (drop 4 t))
                    else encodeRune rr @ unquote (drop 4 t))
             else simple_escape e # unquote t)
      else if c < CHR 0x80 then c # unquote s
      else if utf8_len (c # s) = 0 then replacementChar @ unquote s
      else c # take (utf8_len (c # s) - 1) s @ unquote (drop (utf8_len (c # s) - 1) s))"

text \<open>A number literal: \<^verbatim>\<open>-? (0 | [1-9][0-9]*) (. [0-9]+)? ([eE] [+-]? [0-9]+)?\<close>.\<close>

definition isNumChar :: "char \<Rightarrow> bool" where
  "isNumChar c \<longleftrightarrow> isDigit c \<or> c \<in> set ''+-.eE''"

definition int_part :: "string \<Rightarrow> string option" where
  "int_part s =
     (case s of
        [] \<Rightarrow> None
      | c # r \<Rightarrow>
          if c = CHR ''0'' then Some r
          else if isDigit c then Some (dropWhile isDigit r)
          else None)"

definition frac_part :: "string \<Rightarrow> string option" where
  "frac_part s =
     (case s of
        [] \<Rightarrow> Some []
      | c # r \<Rightarrow>
          if c = CHR ''.'' then
            (if takeWhile isDigit r = [] then None else Some (dropWhile isDigit r))
          else Some s)"

definition exp_part :: "string \<Rightarrow> bool" where
  "exp_part s =
     (case s of
        [] \<Rightarrow> True
      | c # r \<Rightarrow>
          if c = CHR ''e'' \<or> c = CHR ''E'' then
            (let ds = (case r of [] \<Rightarrow> [] | x # y \<Rightarrow> if x = CHR ''+'' \<or> x = CHR ''-'' then y else r)
             in ds \<noteq> [] \<and> list_all isDigit ds)
          else False)"

definition valid_number :: "string \<Rightarrow> bool" where
  "valid_number s =
     (case int_part (case s of [] \<Rightarrow> [] | c # r \<Rightarrow> if c = CHR ''-'' then r else s) of
        None \<Rightarrow> False
      | Some r \<Rightarrow> (case frac_part r of None \<Rightarrow> False | Some r' \<Rightarrow> exp_part r'))"

definition cons_token :: "token \<Rightarrow> token list option \<Rightarrow> token list option" where
  "cons_token t r = map_option ((#) t) r"

text \<open>The tokens of an input; \<open>None\<close> when some byte cannot start or continue a token.\<close>

function tokenize :: "string \<Rightarrow> token list option" where
  "tokenize [] = Some []"
| "tokenize (c # s) =
     (if isSpace c then tokenize s
      else if c = CHR ''{'' then cons_token TLBrace (tokenize s)
      else if c = CHR ''}'' then cons_token TRBrace (tokenize s)
      else if c = CHR ''['' then cons_token TLBrack (tokenize s)
      else if c = CHR '']'' then cons_token TRBrack (tokenize s)
      else if c = CHR '','' then cons_token TComma (tokenize s)
      else if c = CHR '':'' then cons_token TColon (tokenize s)
      else if c = quote then
        (case lex_string s of
           None \<Rightarrow> None
         | Some raw \<Rightarrow> cons_token (TString (unquote raw)) (tokenize (drop (Suc (length raw)) s)))
      else if c = CHR ''-'' \<or> isDigit c then
        (if valid_number (c # takeWhile isNumChar s)
         then cons_token (TNumber (c # takeWhile isNumChar s)) (tokenize (dropWhile isNumChar s))
         else None)
      else if c = CHR ''t'' then
        (if take 3 s = ''rue'' then cons_token TTrue (tokenize (drop 3 s)) else None)
      else if c = CHR ''f'' then
        (if take 4 s = ''alse'' then cons_token TFalse (tokenize (drop 4 s)) else None)
      else if c = CHR ''n'' then
        (if take 3 s = ''ull'' then cons_token TNull (tokenize (drop 3 s)) else None)
      else None)"
  by pat_completeness auto
termination
proof (relation "measure length")
  fix c :: char and s :: string
  have "length (dropWhile isNumChar s) \<le> length s" by (rule length_dropWhile_le)
  then show "(dropWhile isNumChar s, c # s) \<in> measure length" by simp
qed simp_all

declare tokenize.simps [simp del]

text \<open>
  The grammar, as the scanner's stack of open arrays and objects. A frame holds what
  has been read of its array or object; \<open>FKey\<close> is an object whose next member has
  its key and waits for the value.
\<close>

datatype frame =
    FArr "json list"
  | FObj "(string \<times> json) list"
  | FKey "(string \<times> json) list" string

datatype mode = BeginValue | BeginArr | BeginObj | ObjKey | After json

definition maxNestingDepth :: nat where
  "maxNestingDepth = 10000"

text \<open>The first token of a value: a literal is complete, a bracket opens a frame.\<close>

definition start_value :: "token \<Rightarrow> frame list \<Rightarrow> (mode \<times> frame list) option" where
  "start_value t st =
     (case t of
        TString s \<Rightarrow> Some (After (JString s), st)
      | TNumber n \<Rightarrow> Some (After (JNumber n), st)
      | TTrue \<Rightarrow> Some (After (JBool True), st)
      | TFalse \<Rightarrow> Some (After (JBool False), st)
      | TNull \<Rightarrow> Some (After JNull, st)
      | TLBrack \<Rightarrow> if length st < maxNestingDepth then Some (BeginArr, FArr [] # st) else None
      | TLBrace \<Rightarrow> if length st < maxNestingDepth then Some (BeginObj, FObj [] # st) else None
      | _ \<Rightarrow> None)"

fun run :: "mode \<Rightarrow> frame list \<Rightarrow> token list \<Rightarrow> json option" where
  "run m st [] = (case m of After v \<Rightarrow> (case st of [] \<Rightarrow> Some v | _ \<Rightarrow> None) | _ \<Rightarrow> None)"
| "run m st (t # ts) =
     (case m of
        BeginValue \<Rightarrow>
          (case start_value t st of None \<Rightarrow> None | Some (m', st') \<Rightarrow> run m' st' ts)
      | BeginArr \<Rightarrow>
          (case st of
             FArr es # st' \<Rightarrow>
               if t = TRBrack then run (After (JArray es)) st' ts
               else (case start_value t st of None \<Rightarrow> None | Some (m', st'') \<Rightarrow> run m' st'' ts)
           | _ \<Rightarrow> None)
      | BeginObj \<Rightarrow>
          (case st of
             FObj ms # st' \<Rightarrow>
               if t = TRBrace then run (After (JObject ms)) st' ts
               else (case t of
                       TString k \<Rightarrow>
                         (case ts of
                            [] \<Rightarrow> None
                          | t' # ts' \<Rightarrow> if t' = TColon then run BeginValue (FKey ms k # st') ts' else None)
                     | _ \<Rightarrow> None)
           | _ \<Rightarrow> None)
      | ObjKey \<Rightarrow>
          (case st of
             FObj ms # st' \<Rightarrow>
               (case t of
                  TString k \<Rightarrow>
                    (case ts of
                       [] \<Rightarrow> None
                     | t' # ts' \<Rightarrow> if t' = TColon then run BeginValue (FKey ms k # st') ts' else None)
                | _ \<Rightarrow> None)
           | _ \<Rightarrow> None)
      | After v \<Rightarrow>
          (case st of
             [] \<Rightarrow> None
           | FArr es # st' \<Rightarrow>
               if t = TComma then run BeginValue (FArr (es @ [v]) # st') ts
               else if t = TRBrack then run (After (JArray (es @ [v]))) st' ts
               else None
           | FKey ms k # st' \<Rightarrow>
               if t = TComma then run ObjKey (FObj (ms @ [(k, v)]) # st') ts
               else if t = TRBrace then run (After (JObject (ms @ [(k, v)]))) st' ts
               else None
           | FObj ms # st' \<Rightarrow> None))"

text \<open>
  \<^verbatim>\<open>checkValid\<close> and the syntax tree in one: \<open>None\<close> is a syntax error (also the
  empty input and more than \<open>maxNestingDepth\<close> open brackets).
\<close>

definition json_parse :: "string \<Rightarrow> json option" where
  "json_parse data = (case tokenize data of None \<Rightarrow> None | Some ts \<Rightarrow> run BeginValue [] ts)"

subsection \<open>\<^verbatim>\<open>encoding/json\<close>: decoding into Go values\<close>

text \<open>
  The target of \<^verbatim>\<open>json.Unmarshal\<close> is an \<^verbatim>\<open>interface{}\<close>: the nil interface, a nil
  pointer (or a value that is no pointer: both are rejected the same way), or a pointer
  to a value.
\<close>

datatype 'a target = NilInterface | NilPointer | Pointer 'a

text \<open>
  A decoder for a Go type stores a syntax tree into a value of the type. It goes on after
  a mismatch and reports the first error at the end, as \<^verbatim>\<open>decodeState.saveError\<close> does.
\<close>

type_synonym 'a decoder = "json \<Rightarrow> 'a \<Rightarrow> error option \<times> 'a"

definition first_error :: "error option \<Rightarrow> error option \<Rightarrow> error option" where
  "first_error a b = (case a of None \<Rightarrow> b | Some e \<Rightarrow> Some e)"

text \<open>\<^verbatim>\<open>decodeState.unmarshal\<close>: a target that is no pointer to a value is refused.\<close>

definition d_unmarshal :: "'a decoder \<Rightarrow> string \<Rightarrow> 'a target \<Rightarrow> error option \<times> 'a target" where
  "d_unmarshal dec data v =
     (case v of
        Pointer x \<Rightarrow>
          (case json_parse data of
             None \<Rightarrow> (Some SyntaxError, v)
           | Some j \<Rightarrow> (case dec j x of (err, x') \<Rightarrow> (err, Pointer x')))
      | _ \<Rightarrow> (Some InvalidUnmarshalError, v))"

text \<open>\<^verbatim>\<open>json.Unmarshal\<close>: the whole input is checked first.\<close>

definition json_Unmarshal :: "'a decoder \<Rightarrow> string \<Rightarrow> 'a target \<Rightarrow> error option \<times> 'a target" where
  "json_Unmarshal dec data v =
     (case json_parse data of
        None \<Rightarrow> (Some SyntaxError, v)
      | Some _ \<Rightarrow> d_unmarshal dec data v)"

text \<open>
  The value of a variable \<open>x\<close> after a call that got its address \<^verbatim>\<open>&x\<close> and returned
  the target \<open>t\<close>.
\<close>

definition pointee :: "'a \<Rightarrow> 'a target \<Rightarrow> 'a" where
  "pointee x t = (case t of Pointer y \<Rightarrow> y | _ \<Rightarrow> x)"

text \<open>\<^verbatim>\<open>strconv.ParseInt(s, 10, 64)\<close>; Go's \<^verbatim>\<open>int\<close> has 64 bits here.\<close>

definition ParseInt :: "string \<Rightarrow> int option" where
  "ParseInt s =
     (case (case s of
              [] \<Rightarrow> (False, [])
            | c # r \<Rightarrow> if c = CHR ''-'' then (True, r) else if c = CHR ''+'' then (False, r) else (False, s)) of
        (neg, ds) \<Rightarrow>
          if ds = [] \<or> \<not> list_all isDigit ds then None
          else
            (let n = int (foldl (\<lambda>a c. a * 10 + digitVal c) 0 ds);
                 i = (if neg then - n else n)
             in if - (2 ^ 63) \<le> i \<and> i < 2 ^ 63 then Some i else None))"

definition decode_string :: "string decoder" where
  "decode_string j v =
     (case j of
        JString s \<Rightarrow> (None, s)
      | JNull \<Rightarrow> (None, v)
      | _ \<Rightarrow> (Some UnmarshalTypeError, v))"

definition decode_int :: "int decoder" where
  "decode_int j v =
     (case j of
        JNumber lit \<Rightarrow>
          (case ParseInt lit of None \<Rightarrow> (Some UnmarshalTypeError, v) | Some n \<Rightarrow> (None, n))
      | JNull \<Rightarrow> (None, v)
      | _ \<Rightarrow> (Some UnmarshalTypeError, v))"

text \<open>
  The key of an object member selects the struct field of the same name, or else the
  field whose name is equal under case folding (\<^verbatim>\<open>foldName\<close>). Beside the ASCII letters
  only U+017F and U+212A fold to an ASCII letter.
\<close>

definition toUpper :: "char \<Rightarrow> char" where
  "toUpper c = (if isLower c then ''ABCDEFGHIJKLMNOPQRSTUVWXYZ'' ! ((of_char c :: nat) - 97) else c)"

fun foldName :: "string \<Rightarrow> string" where
  "foldName [] = []"
| "foldName (c # s) =
     (if c = CHR 0xC5 \<and> take 1 s = [CHR 0xBF] then CHR ''S'' # foldName (drop 1 s)
      else if c = CHR 0xE2 \<and> take 2 s = [CHR 0x84, CHR 0xAA] then CHR ''K'' # foldName (drop 2 s)
      else toUpper c # foldName s)"

definition matchesField :: "string \<Rightarrow> string \<Rightarrow> bool" where
  "matchesField name key \<longleftrightarrow> key = name \<or> foldName key = foldName name"

subsection \<open>The error reply of the Twitter API\<close>

text \<open>
  \<^verbatim>\<open>twitterError\<close> and \<^verbatim>\<open>twitterErrorReply\<close>. Their struct tags (\<^verbatim>\<open>`json:message`\<close>) lack the
  quotes of a well-formed tag, so \<^verbatim>\<open>encoding/json\<close> does not see them and uses the field
  names \<^verbatim>\<open>Message\<close>, \<^verbatim>\<open>Code\<close> and \<^verbatim>\<open>Errors\<close>.
\<close>

record twitterError =
  Message :: string
  Code :: int

record twitterErrorReply =
  Errors :: "twitterError list"

fun decode_twitterError_members :: "(string \<times> json) list \<Rightarrow> twitterError \<Rightarrow> error option \<times> twitterError" where
  "decode_twitterError_members [] v = (None, v)"
| "decode_twitterError_members ((key, j) # ms) v =
     (case (if matchesField ''Message'' key then
              (case decode_string j (Message v) of (err, s) \<Rightarrow> (err, v\<lparr>Message := s\<rparr>))
            else if matchesField ''Code'' key then
              (case decode_int j (Code v) of (err, n) \<Rightarrow> (err, v\<lparr>Code := n\<rparr>))
            else (None, v)) of
        (err, v') \<Rightarrow>
          (case decode_twitterError_members ms v' of (err', v'') \<Rightarrow> (first_error err err', v'')))"

definition decode_twitterError :: "twitterError decoder" where
  "decode_twitterError j v =
     (case j of
        JObject ms \<Rightarrow> decode_twitterError_members ms v
      | JNull \<Rightarrow> (None, v)
      | _ \<Rightarrow> (Some UnmarshalTypeError, v))"

text \<open>
  An array into a slice: the slice is emptied and every element is decoded into a zero
  value and appended.
\<close>

fun decode_twitterError_elements :: "json list \<Rightarrow> error option \<times> twitterError list" where
  "decode_twitterError_elements [] = (None, [])"
| "decode_twitterError_elements (j # js) =
     (case decode_twitterError j \<lparr>Message = [], Code = 0\<rparr> of
        (err, x) \<Rightarrow>
          (case decode_twitterError_elements js of (err', xs) \<Rightarrow> (first_error err err', x # xs)))"

definition decode_twitterError_slice :: "twitterError list decoder" where
  "decode_twitterError_slice j v =
     (case j of
        JArray js \<Rightarrow> decode_twitterError_elements js
      | JNull \<Rightarrow> (None, [])
      | _ \<Rightarrow> (Some UnmarshalTypeError, v))"

fun decode_twitterErrorReply_members :: "(string \<times> json) list \<Rightarrow> twitterErrorReply \<Rightarrow> error option \<times> twitterErrorReply" where
  "decode_twitterErrorReply_members [] v = (None, v)"
| "decode_twitterErrorReply_members ((key, j) # ms) v =
     (case (if matchesField ''Errors'' key then
              (case decode_twitterError_slice j (Errors v) of (err, es) \<Rightarrow> (err, v\<lparr>Errors := es\<rparr>))
            else (None, v)) of
        (err, v') \<Rightarrow>
          (case decode_twitterErrorReply_members ms v' of (err', v'') \<Rightarrow> (first_error err err', v'')))"

definition decode_twitterErrorReply :: "twitterErrorReply decoder" where
  "decode_twitterErrorReply j v =
     (case j of
        JObject ms \<Rightarrow> decode_twitterErrorReply_members ms v
      | JNull \<Rightarrow> (None, v)
      | _ \<Rightarrow> (Some UnmarshalTypeError, v))"

text \<open>
  \<^verbatim>\<open>twitterErrorReply.String\<close>: the loop prints \<^verbatim>\<open>"%s (%d)\n"\<close> into the buffer for every
  entry.
\<close>

fun String_loop :: "twitterError list \<Rightarrow> string \<Rightarrow> string" where
  "String_loop [] buf = buf"
| "String_loop (e # es) buf =
     String_loop es (buf @ Message e @ '' ('' @ fmt_d (Code e) @ '')'' @ [CHR 0x0A])"

definition twitterErrorReply_String :: "twitterErrorReply \<Rightarrow> string" where
  "twitterErrorReply_String ter = String_loop (Errors ter) []"

subsection \<open>Requests, responses and the world outside\<close>

record Request =
  Method :: string
  URL :: string
  Header :: "(string \<times> string) list"
  ReqBody :: "string option"

text \<open>
  Of an \<^verbatim>\<open>http.Response\<close> the file reads the status code and the body. A body is what
  reading it to its end gives: the bytes and, when reading fails, the error.
\<close>

record Response =
  StatusCode :: int
  Body :: "string \<times> error option"

definition ioutil_ReadAll :: "string \<times> error option \<Rightarrow> string \<times> error option" where
  "ioutil_ReadAll body = body"

text \<open>
  What the standard library decides and the file does not: whether \<^verbatim>\<open>http.NewRequest\<close>
  accepts a URL, what \<^verbatim>\<open>json.Decoder\<close> reads from a stream as its first value, and the
  random boundary of a multipart writer.
\<close>

record env =
  url_ok :: "string \<Rightarrow> bool"
  readValue :: "string \<times> error option \<Rightarrow> error + string"
  randomBoundary :: string

text \<open>
  \<^verbatim>\<open>Client\<close> holds the \<^verbatim>\<open>*http.Client\<close> of the transport, which may be nil. The http
  client is the function that executes a request.
\<close>

record Client =
  client :: "(Request \<Rightarrow> error + Response) option"

text \<open>
  The world: what has been written to standard output, the requests that the transport
  has executed, and the store of \<^verbatim>\<open>Optionals\<close> objects. A \<^verbatim>\<open>*Optionals\<close> is an index
  into the store, or nil.
\<close>

record world =
  stdout :: string
  wire :: "Request list"
  store :: "Values list"

definition apiURL :: string where
  "apiURL = ''https://api.twitter.com/1.1''"

text \<open>
  Modelled from the spec: \<^verbatim>\<open>NewOptionals\<close> and the type \<^verbatim>\<open>Optionals\<close>, which this file
  uses and another file of the repository declares. The spec says that a Parameter
  Container is constructed empty per call; the file reads its field \<^verbatim>\<open>Values\<close>.
\<close>

definition NewOptionals :: "world \<Rightarrow> nat \<times> world" where
  "NewOptionals w = (length (store w), w\<lparr>store := store w @ [[]]\<rparr>)"

text \<open>\<^verbatim>\<open>opts.Values\<close>. An index outside the store is no pointer of a Go program.\<close>

definition opts_Values :: "world \<Rightarrow> nat \<Rightarrow> Values option" where
  "opts_Values w p = (if p < length (store w) then Some (store w ! p) else None)"

definition Println :: "string \<Rightarrow> world \<Rightarrow> world" where
  "Println s w = w\<lparr>stdout := stdout w @ s @ [CHR 0x0A]\<rparr>"

definition Header_Set :: "string \<Rightarrow> string \<Rightarrow> (string \<times> string) list \<Rightarrow> (string \<times> string) list" where
  "Header_Set k v h = (k, v) # filter (\<lambda>p. fst p \<noteq> k) h"

text \<open>\<^verbatim>\<open>http.NewRequest\<close> returns nil and an error for a URL that does not parse.\<close>

definition http_NewRequest :: "env \<Rightarrow> string \<Rightarrow> string \<Rightarrow> string option \<Rightarrow> Request option" where
  "http_NewRequest e method url body =
     (if url_ok e url then Some \<lparr>Method = method, URL = url, Header = [], ReqBody = body\<rparr> else None)"

text \<open>
  \<^verbatim>\<open>c.client.Do(req)\<close>: a nil request or a nil http client is a nil dereference;
  otherwise the transport executes the request.
\<close>

definition client_Do :: "Client \<Rightarrow> Request option \<Rightarrow> world \<Rightarrow> (error + Response) outcome \<times> world" where
  "client_Do c req w =
     (case req of
        None \<Rightarrow> (Panic, w)
      | Some r \<Rightarrow>
          (case client c of
             None \<Rightarrow> (Panic, w)
           | Some do \<Rightarrow> (Return (do r), w\<lparr>wire := wire w @ [r]\<rparr>)))"

subsection \<open>\<^verbatim>\<open>checkResponse\<close>\<close>

definition checkResponse :: "Response \<Rightarrow> world \<Rightarrow> error option \<times> world" where
  "checkResponse res w =
     (if 200 \<le> StatusCode res \<and> StatusCode res \<le> 299 then (None, w)
      else
        (case ioutil_ReadAll (Body res) of
           (slurp, err) \<Rightarrow>
             (let w' = Println slurp w in
              case err of
                Some e \<Rightarrow> (Some e, w')
              | None \<Rightarrow>
                  (case json_Unmarshal decode_twitterErrorReply slurp (Pointer \<lparr>Errors = []\<rparr>) of
                     (Some e, _) \<Rightarrow> (Some e, w')
                   | (None, jerr) \<Rightarrow>
                       (Some (ErrorString (twitterErrorReply_String (pointee \<lparr>Errors = []\<rparr> jerr))), w')))))"

subsection \<open>\<^verbatim>\<open>CallJSON\<close> and \<^verbatim>\<open>Call\<close>\<close>

definition invalid_method :: "string \<Rightarrow> error" where
  "invalid_method method =
     ErrorString (''Invalid method '' @ [apostrophe] @ method @ [apostrophe]
                  @ ''. Must be either GET or POST.'')"

definition CallJSON ::
  "env \<Rightarrow> Client \<Rightarrow> string \<Rightarrow> string \<Rightarrow> nat option \<Rightarrow> world \<Rightarrow> (string \<times> error option) outcome \<times> world" where
  "CallJSON e c method endpoint opts w =
     (if method \<noteq> ''GET'' \<and> method \<noteq> ''POST'' then (Return ([], Some (invalid_method method)), w)
      else
        (case (case opts of None \<Rightarrow> NewOptionals w | Some p \<Rightarrow> (p, w)) of
           (p, w1) \<Rightarrow>
             (case opts_Values w1 p of
                None \<Rightarrow> (Panic, w1)
              | Some values \<Rightarrow>
                  (let endpoint' = apiURL @ ''/'' @ endpoint @ ''.json?'' @ Encode values;
                       w2 = Println endpoint' w1
                   in
                   case (if method = ''POST'' then
                           (case http_NewRequest e method endpoint' (Some (Encode values)) of
                              None \<Rightarrow> Panic
                            | Some r \<Rightarrow>
                                Return (Some (r\<lparr>Header :=
                                  Header_Set ''Content-Type'' ''application/x-www-form-urlencoded'' (Header r)\<rparr>)))
                         else Return (http_NewRequest e method endpoint' None)) of
                     Panic \<Rightarrow> (Panic, w2)
                   | Return req \<Rightarrow>
                       (case client_Do c req w2 of
                          (Panic, w3) \<Rightarrow> (Panic, w3)
                        | (Return (Inl err), w3) \<Rightarrow> (Return ([], Some err), w3)
                        | (Return (Inr res), w3) \<Rightarrow>
                            (case checkResponse res w3 of
                               (Some err, w4) \<Rightarrow> (Return ([], Some err), w4)
                             | (None, w4) \<Rightarrow> (Return (ioutil_ReadAll (Body res)), w4)))))))"

text \<open>
  \<^verbatim>\<open>Call\<close> takes the decoder that belongs to the dynamic type of \<^verbatim>\<open>resp\<close> and returns
  the error and the target as \<^verbatim>\<open>json.Unmarshal\<close> left it.
\<close>

definition Call ::
  "env \<Rightarrow> Client \<Rightarrow> 'a decoder \<Rightarrow> string \<Rightarrow> string \<Rightarrow> nat option \<Rightarrow> 'a target \<Rightarrow> world
     \<Rightarrow> (error option \<times> 'a target) outcome \<times> world" where
  "Call e c dec method endpoint opts resp w =
     (case CallJSON e c method endpoint opts w of
        (Panic, w') \<Rightarrow> (Panic, w')
      | (Return (rawJSON, Some err), w') \<Rightarrow> (Return (Some err, resp), w')
      | (Return (rawJSON, None), w') \<Rightarrow>
          (if resp \<noteq> NilInterface then
             (case json_Unmarshal dec rawJSON resp of
                (err, resp') \<Rightarrow>
                  if err \<noteq> None \<and> err \<noteq> Some UnmarshalTypeError then (Return (err, resp'), w')
                  else (Return (None, resp'), w'))
           else (Return (None, resp), w')))"

subsection \<open>\<^verbatim>\<open>mime/multipart\<close>: the writer\<close>

text \<open>
  A \<^verbatim>\<open>multipart.Writer\<close> on a \<^verbatim>\<open>bytes.Buffer\<close>: the bytes written so far, the boundary,
  and whether a part has been created. Writing to a buffer does not fail.
\<close>

record Writer =
  written :: string
  boundary :: string
  lastpart :: bool

definition NewWriter :: "env \<Rightarrow> Writer" where
  "NewWriter e = \<lparr>written = [], boundary = randomBoundary e, lastpart = False\<rparr>"

definition escapeQuotes :: "string \<Rightarrow> string" where
  "escapeQuotes s =
     concat (map (\<lambda>c. if c = backslash then [backslash, backslash]
                       else if c = quote then [backslash, quote] else [c]) s)"

text \<open>
  \<^verbatim>\<open>CreatePart\<close>: the delimiter line (behind a line break unless the part is the first),
  the header lines with their keys sorted, and an empty line.
\<close>

definition part_header :: "Writer \<Rightarrow> (string \<times> string) list \<Rightarrow> string" where
  "part_header mw h =
     (if lastpart mw then CRLF else []) @ ''--'' @ boundary mw @ CRLF
       @ concat (map (\<lambda>(k, v). k @ '': '' @ v @ CRLF) (sort_key fst h)) @ CRLF"

definition CreatePart :: "(string \<times> string) list \<Rightarrow> Writer \<Rightarrow> Writer" where
  "CreatePart h mw = mw\<lparr>written := written mw @ part_header mw h, lastpart := True\<rparr>"

definition part_Write :: "string \<Rightarrow> Writer \<Rightarrow> Writer" where
  "part_Write data mw = mw\<lparr>written := written mw @ data\<rparr>"

definition CreateFormField :: "string \<Rightarrow> Writer \<Rightarrow> Writer" where
  "CreateFormField fieldname =
     CreatePart [(''Content-Disposition'',
       ''form-data; name='' @ [quote] @ escapeQuotes fieldname @ [quote])]"

definition WriteField :: "string \<Rightarrow> string \<Rightarrow> Writer \<Rightarrow> Writer" where
  "WriteField fieldname value mw = part_Write value (CreateFormField fieldname mw)"

text \<open>\<^verbatim>\<open>CreateFormFile\<close> returns the writer of the part and an error, which is nil on a buffer.\<close>

definition CreateFormFile :: "string \<Rightarrow> string \<Rightarrow> Writer \<Rightarrow> error + Writer" where
  "CreateFormFile fieldname filename mw =
     Inr (CreatePart
       [(''Content-Disposition'',
          ''form-data; name='' @ [quote] @ escapeQuotes fieldname @ [quote]
            @ ''; filename='' @ [quote] @ escapeQuotes filename @ [quote]),
        (''Content-Type'', ''application/octet-stream'')] mw)"

definition Close :: "Writer \<Rightarrow> Writer" where
  "Close mw = mw\<lparr>written := written mw @ CRLF @ ''--'' @ boundary mw @ ''--'' @ CRLF,
                 lastpart := False\<rparr>"

subsection \<open>\<^verbatim>\<open>json.Decoder\<close>\<close>

text \<open>
  \<^verbatim>\<open>json.NewDecoder(r).Decode(v)\<close> reads the first JSON value of the stream, which
  fails with the error of the reader or a syntax error, and then unmarshals it.
\<close>

definition Decoder_Decode :: "env \<Rightarrow> 'a decoder \<Rightarrow> string \<times> error option \<Rightarrow> 'a target \<Rightarrow> error option \<times> 'a target" where
  "Decoder_Decode e dec body v =
     (case readValue e body of
        Inl err \<Rightarrow> (Some err, v)
      | Inr data \<Rightarrow> d_unmarshal dec data v)"

subsection \<open>\<^verbatim>\<open>UpdateStatusWithMedia\<close>\<close>

text \<open>\<^verbatim>\<open>TweetMedia\<close> is declared in another file; this file reads its two fields.\<close>

record TweetMedia =
  Filename :: string
  Data :: string

text \<open>
  The loop over \<^verbatim>\<open>opts.Values\<close> writes the first value of every key; \<^verbatim>\<open>v[0]\<close> panics
  for a key without a value.
\<close>

fun write_params :: "Values \<Rightarrow> Writer \<Rightarrow> Writer outcome" where
  "write_params [] mp = Return mp"
| "write_params ((n, v) # rest) mp =
     (case v of [] \<Rightarrow> Panic | x # _ \<Rightarrow> write_params rest (WriteField n x mp))"

text \<open>
  The named result \<^verbatim>\<open>tweet\<close> is never assigned, so the pointer that \<^verbatim>\<open>Decode\<close> gets
  is nil, and so is the first result at every \<^verbatim>\<open>return\<close>.
\<close>

definition UpdateStatusWithMedia ::
  "env \<Rightarrow> Client \<Rightarrow> 'a decoder \<Rightarrow> string \<Rightarrow> TweetMedia option \<Rightarrow> nat option \<Rightarrow> world
     \<Rightarrow> ('a option \<times> error option) outcome \<times> world" where
  "UpdateStatusWithMedia e c dec status media opts w =
     (case (case opts of None \<Rightarrow> NewOptionals w | Some p \<Rightarrow> (p, w)) of
        (p, w1) \<Rightarrow>
          (case opts_Values w1 p of
             None \<Rightarrow> (Panic, w1)
           | Some values \<Rightarrow>
               (case write_params values (WriteField ''status'' status (NewWriter e)) of
                  Panic \<Rightarrow> (Panic, w1)
                | Return mp \<Rightarrow>
                    (case media of
                       None \<Rightarrow> (Panic, w1)
                     | Some m \<Rightarrow>
                         (case CreateFormFile ''media[]'' (Filename m) mp of
                            Inl err \<Rightarrow> (Return (None, Some err), w1)
                          | Inr writer \<Rightarrow>
                              (let mp' = part_Write (Data m) writer;
                                   header = ''multipart/form-data;boundary='' @ boundary mp';
                                   body = written (Close mp');
                                   endpoint = apiURL @ ''/statuses/update_with_media.json?'' @ Encode values
                               in
                               case http_NewRequest e ''POST'' endpoint (Some body) of
                                 None \<Rightarrow> (Panic, w1)
                               | Some r \<Rightarrow>
                                   (case client_Do c
                                           (Some (r\<lparr>Header := Header_Set ''Content-Type'' header (Header r)\<rparr>)) w1 of
                                      (Panic, w2) \<Rightarrow> (Panic, w2)
                                    | (Return (Inl err), w2) \<Rightarrow> (Return (None, Some err), w2)
                                    | (Return (Inr res), w2) \<Rightarrow>
                                        (case checkResponse res w2 of
                                           (Some err, w3) \<Rightarrow> (Return (None, Some err), w3)
                                         | (None, w3) \<Rightarrow>
                                             (case Decoder_Decode e dec (Body res) NilPointer of
                                                (err, tweet) \<Rightarrow>
                                                  (Return ((case tweet of Pointer t \<Rightarrow> Some t | _ \<Rightarrow> None), err),
                                                   w3))))))))))"

subsection \<open>The multipart body that the spec describes\<close>

text \<open>
  The spec's words for the body of an upload: a list of parts, each a form field with
  a name and a value or a file with a field name, a file name and bytes, between the
  delimiter lines of one boundary. \<open>multipart_body\<close> is the text of such a body;
  \<open>writer_holds\<close> says that a writer has written the given parts so far.
\<close>

datatype part = FormField string string | FormFile string string string

definition part_text :: "string \<Rightarrow> part \<Rightarrow> string" where
  "part_text b p =
     (case p of
        FormField name value \<Rightarrow>
          ''--'' @ b @ CRLF
          @ ''Content-Disposition: form-data; name='' @ [quote] @ escapeQuotes name @ [quote] @ CRLF
          @ CRLF @ value
      | FormFile name filename data \<Rightarrow>
          ''--'' @ b @ CRLF
          @ ''Content-Disposition: form-data; name='' @ [quote] @ escapeQuotes name @ [quote]
            @ ''; filename='' @ [quote] @ escapeQuotes filename @ [quote] @ CRLF
          @ ''Content-Type: application/octet-stream'' @ CRLF
          @ CRLF @ data)"

definition multipart_body :: "string \<Rightarrow> part list \<Rightarrow> string" where
  "multipart_body b ps = join CRLF (map (part_text b) ps) @ CRLF @ ''--'' @ b @ ''--'' @ CRLF"

definition writer_holds :: "string \<Rightarrow> part list \<Rightarrow> Writer \<Rightarrow> bool" where
  "writer_holds b ps mw \<longleftrightarrow>
     boundary mw = b \<and> lastpart mw = (ps \<noteq> []) \<and> written mw = join CRLF (map (part_text b) ps)"

text \<open>The request of an upload, with the body in the spec's words.\<close>

definition media_request :: "env \<Rightarrow> string \<Rightarrow> TweetMedia \<Rightarrow> Values \<Rightarrow> Request" where
  "media_request e status m values =
     \<lparr>Method = ''POST'',
      URL = apiURL @ ''/statuses/update_with_media.json?'' @ Encode values,
      Header = [(''Content-Type'', ''multipart/form-data;boundary='' @ randomBoundary e)],
      ReqBody = Some (multipart_body (randomBoundary e)
        (FormField ''status'' status # map (\<lambda>(n, v). FormField n (hd v)) values
           @ [FormFile ''media[]'' (Filename m) (Data m)]))\<rparr>"

subsection \<open>The endpoint methods\<close>





























subsection \<open>A nil container\<close>


subsection \<open>A concrete environment\<close>

text \<open>
  An environment, a client and a world for running the functions on concrete inputs:
  every URL parses, the decoder reads the whole body as its first value, and the
  transport answers every request with status 200 and an empty JSON object.
\<close>

definition example_env :: env where
  "example_env = \<lparr>url_ok = (\<lambda>_. True), readValue = (\<lambda>b. Inr (fst b)), randomBoundary = ''XYZ''\<rparr>"

definition example_client :: Client where
  "example_client = \<lparr>client = Some (\<lambda>r. Inr \<lparr>StatusCode = 200, Body = (''{}'', None)\<rparr>)\<rparr>"

definition example_world :: world where
  "example_world = \<lparr>stdout = [], wire = [], store = []\<rparr>"

text \<open>A world whose store holds one container with two parameters.\<close>

definition example_params :: world where
  "example_params = \<lparr>stdout = [], wire = [], store = [[(''status'', [''hi there'']), (''lat'', [''1.5''])]]\<rparr>"

text \<open>A response outside 2xx and a transport that answers every request with it.\<close>

definition failing_response :: Response where
  "failing_response = \<lparr>StatusCode = 404, Body = (''Not Found'', None)\<rparr>"

definition failing_client :: Client where
  "failing_client = \<lparr>client = Some (\<lambda>r. Inr failing_response)\<rparr>"

text \<open>
  Two transports with a response within 2xx: the body of the first has a string where
  \<^verbatim>\<open>twitterError\<close> has an \<^verbatim>\<open>int\<close>, the body of the second breaks off.
\<close>

definition mismatch_client :: Client where
  \<open>mismatch_client = \<lparr>client = Some (\<lambda>r. Inr \<lparr>StatusCode = 200, Body = (''{"message":"x","code":"7"}'', None)\<rparr>)\<rparr>\<close>

definition malformed_client :: Client where
  \<open>malformed_client = \<lparr>client = Some (\<lambda>r. Inr \<lparr>StatusCode = 200, Body = (''{"message":'', None)\<rparr>)\<rparr>\<close>

text \<open>An attachment.\<close>

definition example_media :: TweetMedia where
  "example_media = \<lparr>Filename = ''a.png'', Data = ''PNGDATA''\<rparr>"

section \<open>Properties\<close>

subsection \<open>Method validation\<close>

text \<open>
  C4: for every method string other than GET and POST, \<open>CallJSON\<close> returns the invalid
  method error and no data, and \<open>Call\<close> returns the same error and leaves its target as
  it was. The world is the one before the call: the transport has executed no request,
  nothing is printed and no container is allocated.
\<close>

theorem C4_invalid_method:
  assumes "method \<noteq> ''GET''" and "method \<noteq> ''POST''"
  shows "CallJSON e c method endpoint opts w
           = (Return ([], Some (ErrorString (''Invalid method '' @ [apostrophe] @ method
                @ [apostrophe] @ ''. Must be either GET or POST.''))), w)
       \<and> Call e c dec method endpoint opts resp w
           = (Return (Some (ErrorString (''Invalid method '' @ [apostrophe] @ method
                @ [apostrophe] @ ''. Must be either GET or POST.'')), resp), w)
       \<and> wire (snd (CallJSON e c method endpoint opts w)) = wire w
       \<and> wire (snd (Call e c dec method endpoint opts resp w)) = wire w"
proof -
  have j: "CallJSON e c method endpoint opts w = (Return ([], Some (invalid_method method)), w)"
    using assms by (simp add: CallJSON_def)
  then have "Call e c dec method endpoint opts resp w = (Return (Some (invalid_method method), resp), w)"
    by (simp add: Call_def)
  with j show ?thesis by (simp add: invalid_method_def)
qed

theorem C4_invalid_method_witness:
  "''PUT'' \<noteq> ''GET'' \<and> ''PUT'' \<noteq> ''POST''
   \<and> CallJSON example_env example_client ''PUT'' ''statuses/update'' None example_world
       = (Return ([], Some (ErrorString (''Invalid method '' @ [apostrophe] @ ''PUT''
            @ [apostrophe] @ ''. Must be either GET or POST.''))), example_world)
   \<and> wire (snd (Call example_env example_client decode_twitterError ''PUT'' ''statuses/update''
         None NilInterface example_world)) = wire example_world"
  using C4_invalid_method [of "''PUT''" example_env example_client "''statuses/update''" None
      example_world decode_twitterError NilInterface]
  by simp

subsection \<open>What \<open>checkResponse\<close> and \<open>CallJSON\<close> do to the world\<close>

lemma checkResponse_2xx:
  "200 \<le> StatusCode res \<Longrightarrow> StatusCode res \<le> 299 \<Longrightarrow> checkResponse res w = (None, w)"
  by (simp add: checkResponse_def)

lemma checkResponse_world:
  "snd (checkResponse res w) =
     (if 200 \<le> StatusCode res \<and> StatusCode res \<le> 299 then w else Println (fst (Body res)) w)"
  by (simp add: checkResponse_def ioutil_ReadAll_def Let_def
      split: prod.splits option.splits target.splits)

lemma CallJSON_GET:
  assumes "(case opts of None \<Rightarrow> NewOptionals w | Some p \<Rightarrow> (p, w)) = (p', w1)"
    and "opts_Values w1 p' = Some values"
    and "url_ok e (apiURL @ ''/'' @ endpoint @ ''.json?'' @ Encode values)"
    and "client c = Some do"
  shows "CallJSON e c ''GET'' endpoint opts w =
     (let req = \<lparr>Method = ''GET'', URL = apiURL @ ''/'' @ endpoint @ ''.json?'' @ Encode values,
                 Header = [], ReqBody = None\<rparr>;
          w3 = (Println (apiURL @ ''/'' @ endpoint @ ''.json?'' @ Encode values) w1)\<lparr>wire := wire w1 @ [req]\<rparr>
      in case do req of
           Inl err \<Rightarrow> (Return ([], Some err), w3)
         | Inr res \<Rightarrow>
             (case checkResponse res w3 of
                (Some err, w4) \<Rightarrow> (Return ([], Some err), w4)
              | (None, w4) \<Rightarrow> (Return (ioutil_ReadAll (Body res)), w4)))"
  using assms
  by (simp add: CallJSON_def Let_def http_NewRequest_def client_Do_def Println_def split: sum.splits)

lemma CallJSON_POST:
  assumes "(case opts of None \<Rightarrow> NewOptionals w | Some p \<Rightarrow> (p, w)) = (p', w1)"
    and "opts_Values w1 p' = Some values"
    and "url_ok e (apiURL @ ''/'' @ endpoint @ ''.json?'' @ Encode values)"
    and "client c = Some do"
  shows "CallJSON e c ''POST'' endpoint opts w =
     (let req = \<lparr>Method = ''POST'', URL = apiURL @ ''/'' @ endpoint @ ''.json?'' @ Encode values,
                 Header = [(''Content-Type'', ''application/x-www-form-urlencoded'')],
                 ReqBody = Some (Encode values)\<rparr>;
          w3 = (Println (apiURL @ ''/'' @ endpoint @ ''.json?'' @ Encode values) w1)\<lparr>wire := wire w1 @ [req]\<rparr>
      in case do req of
           Inl err \<Rightarrow> (Return ([], Some err), w3)
         | Inr res \<Rightarrow>
             (case checkResponse res w3 of
                (Some err, w4) \<Rightarrow> (Return ([], Some err), w4)
              | (None, w4) \<Rightarrow> (Return (ioutil_ReadAll (Body res)), w4)))"
  using assms
  by (simp add: CallJSON_def Let_def http_NewRequest_def client_Do_def Println_def Header_Set_def split: sum.splits)


lemma checkResponse_wire: "wire (snd (checkResponse res w)) = wire w"
  by (simp add: checkResponse_world Println_def)

lemma checkResponse_store: "store (snd (checkResponse res w)) = store w"
  by (simp add: checkResponse_world Println_def)

lemma after_check_snd:
  "snd (case checkResponse res w of (Some err, w') \<Rightarrow> (A err, w') | (None, w') \<Rightarrow> (B, w'))
     = snd (checkResponse res w)"
  by (simp split: prod.splits option.splits)




subsection \<open>The message of an error reply\<close>

lemma String_loop_concat:
  "String_loop es buf = buf @ concat (map (\<lambda>e. Message e @ '' ('' @ fmt_d (Code e) @ '')'' @ [CHR 0x0A]) es)"
  by (induction es arbitrary: buf) simp_all

lemma concat_terminated_join:
  "xs \<noteq> [] \<Longrightarrow> concat (map (\<lambda>x. f x @ sep) xs) = join sep (map f xs) @ sep"
proof (induction xs rule: induct_list012)
  case 1
  then show ?case by simp
next
  case (2 x)
  show ?case by simp
next
  case (3 x y zs)
  then show ?case by simp
qed

text \<open>
  C1, as the code has it: for a response outside 2xx whose body is read and decoded
  without error into a reply with at least one entry, \<open>checkResponse\<close> returns one
  error. Its message is the entries \<^verbatim>\<open>message (code)\<close> in their order, joined by newlines,
  and one more newline behind the last entry.
\<close>

theorem C1_error_message:
  assumes "\<not> (200 \<le> StatusCode res \<and> StatusCode res \<le> 299)"
    and "Body res = (slurp, None)"
    and "json_Unmarshal decode_twitterErrorReply slurp (Pointer \<lparr>Errors = []\<rparr>) = (None, Pointer jerr)"
    and "Errors jerr \<noteq> []"
  shows "fst (checkResponse res w) =
     Some (ErrorString
       (join [CHR 0x0A] (map (\<lambda>e. Message e @ '' ('' @ fmt_d (Code e) @ '')'') (Errors jerr))
        @ [CHR 0x0A]))"
proof -
  have "fst (checkResponse res w) = Some (ErrorString (twitterErrorReply_String jerr))"
    using assms(1-3) by (simp add: checkResponse_def ioutil_ReadAll_def Let_def pointee_def)
  also have "twitterErrorReply_String jerr =
      concat (map (\<lambda>e. (Message e @ '' ('' @ fmt_d (Code e) @ '')'') @ [CHR 0x0A]) (Errors jerr))"
    by (simp add: twitterErrorReply_String_def String_loop_concat)
  also have "\<dots> = join [CHR 0x0A] (map (\<lambda>e. Message e @ '' ('' @ fmt_d (Code e) @ '')'') (Errors jerr)) @ [CHR 0x0A]"
    using assms(4) by (rule concat_terminated_join)
  finally show ?thesis .
qed

lemma unmarshal_invalid_id:
  \<open>json_Unmarshal decode_twitterErrorReply ''{"errors":[{"message":"Invalid id","code":144}]}''
      (Pointer \<lparr>Errors = []\<rparr>) = (None, Pointer \<lparr>Errors = [\<lparr>Message = ''Invalid id'', Code = 144\<rparr>]\<rparr>)\<close>
  by code_simp

lemma fmt_d_144: "fmt_d 144 = ''144''"
  by code_simp

text \<open>
  C1 as stated fails: for status 404 and the body of one entry \<^verbatim>\<open>Invalid id\<close>, 144, the
  message ends with a newline and so is not \<^verbatim>\<open>Invalid id (144)\<close>.
\<close>

theorem C1_counterexample:
  \<open>fst (checkResponse \<lparr>StatusCode = 404, Body = (''{"errors":[{"message":"Invalid id","code":144}]}'', None)\<rparr>
          example_world) = Some (ErrorString (''Invalid id (144)'' @ [CHR 0x0A]))
   \<and> fst (checkResponse \<lparr>StatusCode = 404, Body = (''{"errors":[{"message":"Invalid id","code":144}]}'', None)\<rparr>
          example_world) \<noteq> Some (ErrorString ''Invalid id (144)'')\<close>
  by (simp add: checkResponse_def ioutil_ReadAll_def Let_def unmarshal_invalid_id
      twitterErrorReply_String_def fmt_d_144 pointee_def)

theorem C1_error_message_witness:
  \<open>\<not> (200 \<le> StatusCode \<lparr>StatusCode = 404, Body = (''{"errors":[{"message":"Invalid id","code":144}]}'', None)\<rparr>
        \<and> StatusCode \<lparr>StatusCode = 404, Body = (''{"errors":[{"message":"Invalid id","code":144}]}'', None)\<rparr> \<le> 299)
   \<and> json_Unmarshal decode_twitterErrorReply ''{"errors":[{"message":"Invalid id","code":144}]}''
        (Pointer \<lparr>Errors = []\<rparr>) = (None, Pointer \<lparr>Errors = [\<lparr>Message = ''Invalid id'', Code = 144\<rparr>]\<rparr>)
   \<and> Errors \<lparr>Errors = [\<lparr>Message = ''Invalid id'', Code = 144\<rparr>]\<rparr> \<noteq> []
   \<and> fst (checkResponse \<lparr>StatusCode = 404, Body = (''{"errors":[{"message":"Invalid id","code":144}]}'', None)\<rparr>
          example_world) = Some (ErrorString (''Invalid id (144)'' @ [CHR 0x0A]))\<close>
proof -
  let ?body = \<open>''{"errors":[{"message":"Invalid id","code":144}]}''\<close>
  let ?res = "\<lparr>StatusCode = 404, Body = (?body, None)\<rparr>"
  let ?jerr = "\<lparr>Errors = [\<lparr>Message = ''Invalid id'', Code = 144\<rparr>]\<rparr>"
  have h1: "\<not> (200 \<le> StatusCode ?res \<and> StatusCode ?res \<le> 299)" by simp
  have h2: "Body ?res = (?body, None)" by simp
  have h4: "Errors ?jerr \<noteq> []" by simp
  from C1_error_message [OF h1 h2 unmarshal_invalid_id h4, of example_world]
  show ?thesis using unmarshal_invalid_id by (simp add: fmt_d_144)
qed

subsection \<open>A reply without entries\<close>

lemma unmarshal_no_entries:
  \<open>json_Unmarshal decode_twitterErrorReply ''{"errors":[]}'' (Pointer \<lparr>Errors = []\<rparr>)
     = (None, Pointer \<lparr>Errors = []\<rparr>)\<close>
  by code_simp

text \<open>
  C5, as the code has it: for a response outside 2xx whose body is read and decoded
  without error into a reply with no entry, \<open>checkResponse\<close> returns the error that
  \<^verbatim>\<open>errors.New\<close> makes of the reply's string, which is the error with the empty message.
\<close>

theorem C5_empty_reply:
  assumes "\<not> (200 \<le> StatusCode res \<and> StatusCode res \<le> 299)"
    and "Body res = (slurp, None)"
    and "json_Unmarshal decode_twitterErrorReply slurp (Pointer \<lparr>Errors = []\<rparr>) = (None, Pointer jerr)"
    and "Errors jerr = []"
  shows "fst (checkResponse res w) = Some (ErrorString [])"
  using assms
  by (simp add: checkResponse_def ioutil_ReadAll_def Let_def twitterErrorReply_String_def pointee_def)

theorem C5_empty_reply_witness:
  \<open>\<not> (200 \<le> StatusCode \<lparr>StatusCode = 404, Body = (''{"errors":[]}'', None)\<rparr>
        \<and> StatusCode \<lparr>StatusCode = 404, Body = (''{"errors":[]}'', None)\<rparr> \<le> 299)
   \<and> json_Unmarshal decode_twitterErrorReply ''{"errors":[]}'' (Pointer \<lparr>Errors = []\<rparr>)
        = (None, Pointer \<lparr>Errors = []\<rparr>)
   \<and> Errors \<lparr>Errors = []\<rparr> = []
   \<and> fst (checkResponse \<lparr>StatusCode = 404, Body = (''{"errors":[]}'', None)\<rparr> example_world)
        = Some (ErrorString [])\<close>
proof -
  let ?res = \<open>\<lparr>StatusCode = 404, Body = (''{"errors":[]}'', None)\<rparr>\<close>
  have h1: "\<not> (200 \<le> StatusCode ?res \<and> StatusCode ?res \<le> 299)" by simp
  have h2: \<open>Body ?res = (''{"errors":[]}'', None)\<close> by simp
  have h4: "Errors \<lparr>Errors = []\<rparr> = []" by simp
  from C5_empty_reply [OF h1 h2 unmarshal_no_entries h4, of example_world]
  show ?thesis using unmarshal_no_entries by simp
qed

text \<open>
  C5 as stated fails: for status 404 and the body \<^verbatim>\<open>{"errors":[]}\<close> the error is the one
  made of the empty reply and none of the errors of a failed decoding.
\<close>

theorem C5_counterexample:
  \<open>fst (checkResponse \<lparr>StatusCode = 404, Body = (''{"errors":[]}'', None)\<rparr> example_world)
     = Some (ErrorString [])
   \<and> fst (checkResponse \<lparr>StatusCode = 404, Body = (''{"errors":[]}'', None)\<rparr> example_world)
     \<noteq> Some SyntaxError
   \<and> fst (checkResponse \<lparr>StatusCode = 404, Body = (''{"errors":[]}'', None)\<rparr> example_world)
     \<noteq> Some UnmarshalTypeError\<close>
  by (simp add: checkResponse_def ioutil_ReadAll_def Let_def unmarshal_no_entries
      twitterErrorReply_String_def pointee_def)

subsection \<open>Where the parameters go\<close>


lemma Encode_example_params:
  "Encode [(''status'', [''hi there'']), (''lat'', [''1.5''])] = ''lat=1.5&status=hi+there''"
  by (simp add: Encode_def shouldEscape_def isLower_def isUpper_def isDigit_def)





subsection \<open>Standard output\<close>

lemma resolve_stdout:
  "(case opts of None \<Rightarrow> NewOptionals w | Some p \<Rightarrow> (p, w)) = (p', w1) \<Longrightarrow> stdout w1 = stdout w"
  by (cases opts) (auto simp: NewOptionals_def)

lemma CallJSON_stdout_GET:
  assumes "(case opts of None \<Rightarrow> NewOptionals w | Some p \<Rightarrow> (p, w)) = (p', w1)"
    and "opts_Values w1 p' = Some values"
  shows "stdout (snd (CallJSON e c ''GET'' endpoint opts w)) =
     stdout w @ apiURL @ ''/'' @ endpoint @ ''.json?'' @ Encode values @ [CHR 0x0A]
     @ (if url_ok e (apiURL @ ''/'' @ endpoint @ ''.json?'' @ Encode values) then
          (case client c of
             None \<Rightarrow> []
           | Some do \<Rightarrow>
               (case do \<lparr>Method = ''GET'', URL = apiURL @ ''/'' @ endpoint @ ''.json?'' @ Encode values,
                          Header = [], ReqBody = None\<rparr> of
                  Inl err \<Rightarrow> []
                | Inr res \<Rightarrow>
                    if 200 \<le> StatusCode res \<and> StatusCode res \<le> 299 then []
                    else fst (Body res) @ [CHR 0x0A]))
        else [])"
  using assms resolve_stdout [OF assms(1)]
  by (simp add: CallJSON_def Let_def http_NewRequest_def client_Do_def after_check_snd
      checkResponse_world Println_def split: option.splits sum.splits)

lemma CallJSON_stdout_POST:
  assumes "(case opts of None \<Rightarrow> NewOptionals w | Some p \<Rightarrow> (p, w)) = (p', w1)"
    and "opts_Values w1 p' = Some values"
  shows "stdout (snd (CallJSON e c ''POST'' endpoint opts w)) =
     stdout w @ apiURL @ ''/'' @ endpoint @ ''.json?'' @ Encode values @ [CHR 0x0A]
     @ (if url_ok e (apiURL @ ''/'' @ endpoint @ ''.json?'' @ Encode values) then
          (case client c of
             None \<Rightarrow> []
           | Some do \<Rightarrow>
               (case do \<lparr>Method = ''POST'', URL = apiURL @ ''/'' @ endpoint @ ''.json?'' @ Encode values,
                          Header = [(''Content-Type'', ''application/x-www-form-urlencoded'')],
                          ReqBody = Some (Encode values)\<rparr> of
                  Inl err \<Rightarrow> []
                | Inr res \<Rightarrow>
                    if 200 \<le> StatusCode res \<and> StatusCode res \<le> 299 then []
                    else fst (Body res) @ [CHR 0x0A]))
        else [])"
  using assms resolve_stdout [OF assms(1)]
  by (simp add: CallJSON_def Let_def http_NewRequest_def client_Do_def after_check_snd
      checkResponse_world Println_def Header_Set_def split: option.splits sum.splits)

text \<open>
  C8, as the code has it. \<open>checkResponse\<close> prints the body it has read and a newline
  for every response outside 2xx, and nothing for a response within; it leaves the
  requests on the wire and the store as they are. \<open>CallJSON\<close> with a method other
  than GET and POST leaves the world as it is. With GET or POST and a container it prints
  the URL it has composed and a newline, before it builds the request, and behind that
  what \<open>checkResponse\<close> prints for the response of the transport, if there is one.
\<close>

theorem C8_output:
  "stdout (snd (checkResponse res w)) =
      (if 200 \<le> StatusCode res \<and> StatusCode res \<le> 299 then stdout w
       else stdout w @ fst (Body res) @ [CHR 0x0A])
   \<and> wire (snd (checkResponse res w)) = wire w
   \<and> store (snd (checkResponse res w)) = store w
   \<and> (method \<noteq> ''GET'' \<and> method \<noteq> ''POST'' \<longrightarrow> snd (CallJSON e c method endpoint opts w) = w)
   \<and> ((case opts of None \<Rightarrow> NewOptionals w | Some p \<Rightarrow> (p, w)) = (p', w1)
        \<and> opts_Values w1 p' = Some values \<longrightarrow>
        stdout (snd (CallJSON e c ''GET'' endpoint opts w)) =
          stdout w @ apiURL @ ''/'' @ endpoint @ ''.json?'' @ Encode values @ [CHR 0x0A]
          @ (if url_ok e (apiURL @ ''/'' @ endpoint @ ''.json?'' @ Encode values) then
               (case client c of
                  None \<Rightarrow> []
                | Some do \<Rightarrow>
                    (case do \<lparr>Method = ''GET'', URL = apiURL @ ''/'' @ endpoint @ ''.json?'' @ Encode values,
                               Header = [], ReqBody = None\<rparr> of
                       Inl err \<Rightarrow> []
                     | Inr res \<Rightarrow>
                         if 200 \<le> StatusCode res \<and> StatusCode res \<le> 299 then []
                         else fst (Body res) @ [CHR 0x0A]))
             else [])
      \<and> stdout (snd (CallJSON e c ''POST'' endpoint opts w)) =
          stdout w @ apiURL @ ''/'' @ endpoint @ ''.json?'' @ Encode values @ [CHR 0x0A]
          @ (if url_ok e (apiURL @ ''/'' @ endpoint @ ''.json?'' @ Encode values) then
               (case client c of
                  None \<Rightarrow> []
                | Some do \<Rightarrow>
                    (case do \<lparr>Method = ''POST'', URL = apiURL @ ''/'' @ endpoint @ ''.json?'' @ Encode values,
                               Header = [(''Content-Type'', ''application/x-www-form-urlencoded'')],
                               ReqBody = Some (Encode values)\<rparr> of
                       Inl err \<Rightarrow> []
                     | Inr res \<Rightarrow>
                         if 200 \<le> StatusCode res \<and> StatusCode res \<le> 299 then []
                         else fst (Body res) @ [CHR 0x0A]))
             else []))"
proof -
  have a: "stdout (snd (checkResponse res w)) =
      (if 200 \<le> StatusCode res \<and> StatusCode res \<le> 299 then stdout w
       else stdout w @ fst (Body res) @ [CHR 0x0A])"
    by (simp add: checkResponse_world Println_def)
  have b: "method \<noteq> ''GET'' \<and> method \<noteq> ''POST'' \<longrightarrow> snd (CallJSON e c method endpoint opts w) = w"
    by (simp add: CallJSON_def)
  have g: "(case opts of None \<Rightarrow> NewOptionals w | Some p \<Rightarrow> (p, w)) = (p', w1)
        \<Longrightarrow> opts_Values w1 p' = Some values \<Longrightarrow> ?thesis"
    using a b checkResponse_wire [of res w] checkResponse_store [of res w]
      CallJSON_stdout_GET [where opts = opts and w = w and e = e and c = c and endpoint = endpoint]
      CallJSON_stdout_POST [where opts = opts and w = w and e = e and c = c and endpoint = endpoint]
    by simp
  show ?thesis
    using a b g checkResponse_wire [of res w] checkResponse_store [of res w]
    by blast
qed

theorem C8_output_witness:
  "stdout (snd (checkResponse failing_response example_params)) = ''Not Found'' @ [CHR 0x0A]
   \<and> ''PUT'' \<noteq> ''GET'' \<and> ''PUT'' \<noteq> ''POST''
   \<and> snd (CallJSON example_env example_client ''PUT'' ''statuses/update'' (Some 0) example_params) = example_params
   \<and> (case Some 0 of None \<Rightarrow> NewOptionals example_params | Some p \<Rightarrow> (p, example_params))
        = (0, example_params)
   \<and> opts_Values example_params 0 = Some [(''status'', [''hi there'']), (''lat'', [''1.5''])]
   \<and> stdout (snd (CallJSON example_env example_client ''GET'' ''statuses/update'' (Some 0) example_params))
       = ''https://api.twitter.com/1.1/statuses/update.json?lat=1.5&status=hi+there'' @ [CHR 0x0A]
   \<and> stdout (snd (CallJSON example_env failing_client ''POST'' ''statuses/update'' (Some 0) example_params))
       = ''https://api.twitter.com/1.1/statuses/update.json?lat=1.5&status=hi+there'' @ [CHR 0x0A]
         @ ''Not Found'' @ [CHR 0x0A]"
proof -
  let ?vs = "[(''status'', [''hi there'']), (''lat'', [''1.5''])]"
  have h1: "opts_Values example_params 0 = Some ?vs"
    by (simp add: opts_Values_def example_params_def)
  have h2: "''PUT'' \<noteq> ''GET'' \<and> ''PUT'' \<noteq> ''POST''" by simp
  have s0: "stdout example_params = []" by (simp add: example_params_def)
  note a = C8_output [of failing_response example_params "''PUT''" example_env example_client
      "''statuses/update''" "Some 0" 0 example_params ?vs]
  note b = C8_output [of failing_response example_params "''PUT''" example_env failing_client
      "''statuses/update''" "Some 0" 0 example_params ?vs]
  have c1: "stdout (snd (checkResponse failing_response example_params)) = ''Not Found'' @ [CHR 0x0A]"
    using a by (simp add: failing_response_def s0)
  have c2: "snd (CallJSON example_env example_client ''PUT'' ''statuses/update'' (Some 0) example_params) = example_params"
    using a h2 by blast
  have c3: "stdout (snd (CallJSON example_env example_client ''GET'' ''statuses/update'' (Some 0) example_params))
       = ''https://api.twitter.com/1.1/statuses/update.json?lat=1.5&status=hi+there'' @ [CHR 0x0A]"
    using a h1 by (simp add: Encode_example_params apiURL_def example_env_def example_client_def s0)
  have c4: "stdout (snd (CallJSON example_env failing_client ''POST'' ''statuses/update'' (Some 0) example_params))
       = ''https://api.twitter.com/1.1/statuses/update.json?lat=1.5&status=hi+there'' @ [CHR 0x0A]
         @ ''Not Found'' @ [CHR 0x0A]"
    using b h1 by (simp add: Encode_example_params apiURL_def example_env_def failing_client_def
        failing_response_def s0)
  from c1 c2 c3 c4 h1 h2 show ?thesis by simp
qed

text \<open>
  C8 as stated fails: with nothing on standard output before, a GET call leaves the URL
  there, and \<open>checkResponse\<close> leaves the body of a 404 response there.
\<close>

theorem C8_counterexample:
  "stdout example_params = []
   \<and> stdout (snd (CallJSON example_env example_client ''GET'' ''statuses/update'' (Some 0) example_params))
       = ''https://api.twitter.com/1.1/statuses/update.json?lat=1.5&status=hi+there'' @ [CHR 0x0A]
   \<and> stdout example_world = []
   \<and> stdout (snd (checkResponse failing_response example_world)) = ''Not Found'' @ [CHR 0x0A]"
proof -
  let ?vs = "[(''status'', [''hi there'']), (''lat'', [''1.5''])]"
  have h1: "opts_Values example_params 0 = Some ?vs"
    by (simp add: opts_Values_def example_params_def)
  have r: "(case Some 0 of None \<Rightarrow> NewOptionals example_params | Some p \<Rightarrow> (p, example_params))
             = (0, example_params)"
    by simp
  from CallJSON_stdout_GET [OF r h1, of example_env example_client "''statuses/update''"]
  show ?thesis
    by (simp add: Encode_example_params apiURL_def example_env_def example_params_def
        example_world_def example_client_def failing_response_def checkResponse_world Println_def)
qed

subsection \<open>Decoding a successful response\<close>

lemma json_Unmarshal_malformed:
  "json_parse data = None \<Longrightarrow> json_Unmarshal dec data v = (Some SyntaxError, v)"
  by (simp add: json_Unmarshal_def)

text \<open>
  \<open>CallJSON\<close> returns the body and no error for a response within 2xx whose body is
  read without error.
\<close>

lemma CallJSON_2xx:
  assumes "method = ''GET'' \<or> method = ''POST''"
    and "(case opts of None \<Rightarrow> NewOptionals w | Some p \<Rightarrow> (p, w)) = (p', w1)"
    and "opts_Values w1 p' = Some values"
    and "url_ok e (apiURL @ ''/'' @ endpoint @ ''.json?'' @ Encode values)"
    and "client c = Some (\<lambda>r. Inr res)"
    and "200 \<le> StatusCode res" and "StatusCode res \<le> 299"
  shows "fst (CallJSON e c method endpoint opts w) = Return (Body res)"
  using assms(1)
proof
  assume "method = ''GET''"
  then show ?thesis
    using CallJSON_GET [OF assms(2-5)] assms(6,7)
    by (simp add: Let_def checkResponse_2xx ioutil_ReadAll_def)
next
  assume "method = ''POST''"
  then show ?thesis
    using CallJSON_POST [OF assms(2-5)] assms(6,7)
    by (simp add: Let_def checkResponse_2xx ioutil_ReadAll_def)
qed

lemma unmarshal_mismatch:
  \<open>json_Unmarshal decode_twitterError ''{"message":"x","code":"7"}'' (Pointer \<lparr>Message = [], Code = 0\<rparr>)
     = (Some UnmarshalTypeError, Pointer \<lparr>Message = ''x'', Code = 0\<rparr>)\<close>
  by code_simp

lemma parse_malformed: \<open>json_parse ''{"message":'' = None\<close>
  by code_simp

text \<open>
  C3: when \<open>CallJSON\<close> has returned data and no error, and the target is not the nil
  interface, \<open>Call\<close> returns no error for a failure of \<^verbatim>\<open>json.Unmarshal\<close> that is an
  \<^verbatim>\<open>UnmarshalTypeError\<close>, with the target as the decoder left it, and returns every other
  error of \<^verbatim>\<open>json.Unmarshal\<close>; data that is not JSON gives a syntax error, which is
  returned.
\<close>

theorem C3_type_mismatch_tolerated:
  assumes "CallJSON e c method endpoint opts w = (Return (rawJSON, None), w')"
    and "resp \<noteq> NilInterface"
    and "json_Unmarshal dec rawJSON resp = (err, resp')"
  shows "(err = Some UnmarshalTypeError \<longrightarrow>
            Call e c dec method endpoint opts resp w = (Return (None, resp'), w'))
       \<and> (err \<noteq> None \<and> err \<noteq> Some UnmarshalTypeError \<longrightarrow>
            Call e c dec method endpoint opts resp w = (Return (err, resp'), w'))
       \<and> (json_parse rawJSON = None \<longrightarrow>
            Call e c dec method endpoint opts resp w = (Return (Some SyntaxError, resp), w'))"
proof -
  have "json_parse rawJSON = None \<longrightarrow> err = Some SyntaxError \<and> resp' = resp"
    using assms(3) by (auto simp: json_Unmarshal_def)
  then show ?thesis
    using assms by (auto simp: Call_def)
qed

theorem C3_type_mismatch_tolerated_witness:
  \<open>fst (CallJSON example_env mismatch_client ''GET'' ''statuses/show'' None example_world)
      = Return (''{"message":"x","code":"7"}'', None)
   \<and> Pointer \<lparr>Message = [], Code = 0\<rparr> \<noteq> NilInterface
   \<and> json_Unmarshal decode_twitterError ''{"message":"x","code":"7"}'' (Pointer \<lparr>Message = [], Code = 0\<rparr>)
        = (Some UnmarshalTypeError, Pointer \<lparr>Message = ''x'', Code = 0\<rparr>)
   \<and> fst (Call example_env mismatch_client decode_twitterError ''GET'' ''statuses/show'' None
             (Pointer \<lparr>Message = [], Code = 0\<rparr>) example_world)
        = Return (None, Pointer \<lparr>Message = ''x'', Code = 0\<rparr>)
   \<and> fst (CallJSON example_env malformed_client ''GET'' ''statuses/show'' None example_world)
      = Return (''{"message":'', None)
   \<and> json_parse ''{"message":'' = None
   \<and> fst (Call example_env malformed_client decode_twitterError ''GET'' ''statuses/show'' None
             (Pointer \<lparr>Message = [], Code = 0\<rparr>) example_world)
        = Return (Some SyntaxError, Pointer \<lparr>Message = [], Code = 0\<rparr>)\<close>
proof -
  let ?zero = "Pointer \<lparr>Message = [], Code = 0\<rparr>"
  have m: "''GET'' = ''GET'' \<or> ''GET'' = ''POST''" by simp
  have r: "(case None of None \<Rightarrow> NewOptionals example_world | Some p \<Rightarrow> (p, example_world))
             = (0, example_world\<lparr>store := [[]]\<rparr>)"
    by (simp add: NewOptionals_def example_world_def)
  have v: "opts_Values (example_world\<lparr>store := [[]]\<rparr>) 0 = Some []"
    by (simp add: opts_Values_def)
  have u: "url_ok example_env (apiURL @ ''/'' @ ''statuses/show'' @ ''.json?'' @ Encode [])"
    by (simp add: example_env_def)
  have j1: \<open>fst (CallJSON example_env mismatch_client ''GET'' ''statuses/show'' None example_world)
      = Return (''{"message":"x","code":"7"}'', None)\<close>
    using CallJSON_2xx [OF m r v u, of mismatch_client
        \<open>\<lparr>StatusCode = 200, Body = (''{"message":"x","code":"7"}'', None)\<rparr>\<close>]
    by (simp add: mismatch_client_def)
  have j2: \<open>fst (CallJSON example_env malformed_client ''GET'' ''statuses/show'' None example_world)
      = Return (''{"message":'', None)\<close>
    using CallJSON_2xx [OF m r v u, of malformed_client
        \<open>\<lparr>StatusCode = 200, Body = (''{"message":'', None)\<rparr>\<close>]
    by (simp add: malformed_client_def)
  have k1: \<open>CallJSON example_env mismatch_client ''GET'' ''statuses/show'' None example_world
      = (Return (''{"message":"x","code":"7"}'', None),
         snd (CallJSON example_env mismatch_client ''GET'' ''statuses/show'' None example_world))\<close>
    using j1 by (metis prod.collapse)
  have k2: \<open>CallJSON example_env malformed_client ''GET'' ''statuses/show'' None example_world
      = (Return (''{"message":'', None),
         snd (CallJSON example_env malformed_client ''GET'' ''statuses/show'' None example_world))\<close>
    using j2 by (metis prod.collapse)
  have t: "?zero \<noteq> NilInterface" by simp
  have s: \<open>json_Unmarshal decode_twitterError ''{"message":'' ?zero = (Some SyntaxError, ?zero)\<close>
    using parse_malformed by (rule json_Unmarshal_malformed)
  from C3_type_mismatch_tolerated [OF k1 t unmarshal_mismatch]
  have c1: "fst (Call example_env mismatch_client decode_twitterError ''GET'' ''statuses/show'' None
             ?zero example_world) = Return (None, Pointer \<lparr>Message = ''x'', Code = 0\<rparr>)"
    by simp
  from C3_type_mismatch_tolerated [OF k2 t s] parse_malformed
  have c2: "fst (Call example_env malformed_client decode_twitterError ''GET'' ''statuses/show'' None
             ?zero example_world) = Return (Some SyntaxError, ?zero)"
    by simp
  from j1 j2 c1 c2 t unmarshal_mismatch parse_malformed show ?thesis by blast
qed

subsection \<open>The multipart upload\<close>

lemma join_snoc: "join sep (xs @ [y]) = (if xs = [] then y else join sep xs @ sep @ y)"
  by (induction xs rule: induct_list012) simp_all

lemma writer_holds_NewWriter: "writer_holds (randomBoundary e) [] (NewWriter e)"
  by (simp add: writer_holds_def NewWriter_def)

lemma writer_holds_WriteField:
  "writer_holds b ps mw \<Longrightarrow> writer_holds b (ps @ [FormField n v]) (WriteField n v mw)"
  by (simp add: writer_holds_def WriteField_def part_Write_def CreateFormField_def CreatePart_def
      part_header_def part_text_def join_snoc)

lemma sorted_file_header:
  "sort_key fst [(''Content-Disposition'', x), (''Content-Type'', y)]
     = [(''Content-Disposition'', x), (''Content-Type'', y)]"
  by simp

lemma writer_holds_CreateFormFile:
  "writer_holds b ps mw \<Longrightarrow>
     \<exists>mw'. CreateFormFile n f mw = Inr mw' \<and> writer_holds b (ps @ [FormFile n f d]) (part_Write d mw')"
  by (simp add: writer_holds_def part_Write_def CreateFormFile_def CreatePart_def
      part_header_def part_text_def join_snoc sorted_file_header del: sort_key_simps)

lemma writer_holds_Close:
  "writer_holds b ps mw \<Longrightarrow> written (Close mw) = multipart_body b ps"
  by (simp add: writer_holds_def Close_def multipart_body_def)

lemma writer_holds_write_params:
  "writer_holds b ps mw \<Longrightarrow> \<forall>(n, v) \<in> set values. v \<noteq> [] \<Longrightarrow>
     \<exists>mw'. write_params values mw = Return mw'
         \<and> writer_holds b (ps @ map (\<lambda>(n, v). FormField n (hd v)) values) mw'"
proof (induction "values" arbitrary: ps mw)
  case Nil
  then show ?case by simp
next
  case (Cons a "values")
  obtain n v where a: "a = (n, v)" by (cases a)
  with Cons.prems(2) obtain x xs where v: "v = x # xs" by (cases v) auto
  from Cons.prems(1) have "writer_holds b (ps @ [FormField n x]) (WriteField n x mw)"
    by (rule writer_holds_WriteField)
  moreover from Cons.prems(2) have "\<forall>(n, v) \<in> set values. v \<noteq> []" by simp
  ultimately obtain mw' where "write_params values (WriteField n x mw) = Return mw'"
    and "writer_holds b ((ps @ [FormField n x]) @ map (\<lambda>(n, v). FormField n (hd v)) values) mw'"
    using Cons.IH by blast
  then show ?case using a v by simp
qed

lemma Decoder_Decode_nil:
  "Decoder_Decode e dec body NilPointer =
     (Some (case readValue e body of Inl err \<Rightarrow> err | Inr data \<Rightarrow> InvalidUnmarshalError), NilPointer)"
  by (simp add: Decoder_Decode_def d_unmarshal_def split: sum.splits)

lemma UpdateStatusWithMedia_built:
  assumes "(case opts of None \<Rightarrow> NewOptionals w | Some p \<Rightarrow> (p, w)) = (p', w1)"
    and "opts_Values w1 p' = Some values"
    and "\<forall>(n, v) \<in> set values. v \<noteq> []"
    and "url_ok e (apiURL @ ''/statuses/update_with_media.json?'' @ Encode values)"
    and "client c = Some do"
  shows "UpdateStatusWithMedia e c dec status (Some m) opts w =
     (let w2 = w1\<lparr>wire := wire w1 @ [media_request e status m values]\<rparr>
      in case do (media_request e status m values) of
           Inl err \<Rightarrow> (Return (None, Some err), w2)
         | Inr res \<Rightarrow>
             (case checkResponse res w2 of
                (Some err, w3) \<Rightarrow> (Return (None, Some err), w3)
              | (None, w3) \<Rightarrow>
                  (Return (None, Some (case readValue e (Body res) of
                                         Inl err \<Rightarrow> err | Inr data \<Rightarrow> InvalidUnmarshalError)), w3)))"
proof -
  let ?b = "randomBoundary e"
  have "writer_holds ?b ([] @ [FormField ''status'' status]) (WriteField ''status'' status (NewWriter e))"
    using writer_holds_NewWriter by (rule writer_holds_WriteField)
  then obtain mp where mp: "write_params values (WriteField ''status'' status (NewWriter e)) = Return mp"
    and h: "writer_holds ?b (([] @ [FormField ''status'' status]) @ map (\<lambda>(n, v). FormField n (hd v)) values) mp"
    using writer_holds_write_params [OF _ assms(3)] by blast
  from h obtain writer where wr: "CreateFormFile ''media[]'' (Filename m) mp = Inr writer"
    and h': "writer_holds ?b ((([] @ [FormField ''status'' status]) @ map (\<lambda>(n, v). FormField n (hd v)) values)
                @ [FormFile ''media[]'' (Filename m) (Data m)]) (part_Write (Data m) writer)"
    using writer_holds_CreateFormFile by blast
  from h' have body: "written (Close (part_Write (Data m) writer)) =
      multipart_body ?b (FormField ''status'' status # map (\<lambda>(n, v). FormField n (hd v)) values
           @ [FormFile ''media[]'' (Filename m) (Data m)])"
    using writer_holds_Close by fastforce
  from h' have bd: "boundary (part_Write (Data m) writer) = ?b"
    by (simp add: writer_holds_def)
  show ?thesis
    using assms(1,2,4,5) mp wr body bd
    by (simp add: UpdateStatusWithMedia_def Let_def http_NewRequest_def client_Do_def
        Header_Set_def media_request_def Decoder_Decode_nil split: sum.splits prod.splits option.splits)
qed

lemma UpdateStatusWithMedia_wire:
  assumes "(case opts of None \<Rightarrow> NewOptionals w | Some p \<Rightarrow> (p, w)) = (p', w1)"
    and "opts_Values w1 p' = Some values"
    and "\<forall>(n, v) \<in> set values. v \<noteq> []"
    and "url_ok e (apiURL @ ''/statuses/update_with_media.json?'' @ Encode values)"
    and "client c = Some do"
  shows "wire (snd (UpdateStatusWithMedia e c dec status (Some m) opts w))
           = wire w1 @ [media_request e status m values]"
  by (simp add: UpdateStatusWithMedia_built [OF assms] Let_def after_check_snd checkResponse_wire
      split: sum.splits)

lemma resolve_wire:
  "(case opts of None \<Rightarrow> NewOptionals w | Some p \<Rightarrow> (p, w)) = (p', w1) \<Longrightarrow> wire w1 = wire w"
  by (cases opts) (auto simp: NewOptionals_def)

text \<open>
  C6, as the code has it: when the container is there, every key has a value, the URL
  parses and there is an http client, \<open>UpdateStatusWithMedia\<close> hands one POST request
  to the transport. Its body is a multipart body with the field \<^verbatim>\<open>status\<close>, one field
  for every key of the container with the first value of the key, and the file part
  \<^verbatim>\<open>media[]\<close> with the name and the bytes of the attachment; the boundary of the body is
  the boundary in the header \<^verbatim>\<open>Content-Type\<close>. The query string of its URL is the encoded
  container, with every value of every key. The status is not added to it.
\<close>

theorem C6_multipart_request:
  assumes "(case opts of None \<Rightarrow> NewOptionals w | Some p \<Rightarrow> (p, w)) = (p', w1)"
    and "opts_Values w1 p' = Some values"
    and "\<forall>(n, v) \<in> set values. v \<noteq> []"
    and "url_ok e (apiURL @ ''/statuses/update_with_media.json?'' @ Encode values)"
    and "client c = Some do"
  shows "wire (snd (UpdateStatusWithMedia e c dec status (Some m) opts w)) =
     wire w @
     [\<lparr>Method = ''POST'',
       URL = apiURL @ ''/statuses/update_with_media.json?'' @ Encode values,
       Header = [(''Content-Type'', ''multipart/form-data;boundary='' @ randomBoundary e)],
       ReqBody = Some (multipart_body (randomBoundary e)
         (FormField ''status'' status # map (\<lambda>(n, v). FormField n (hd v)) values
            @ [FormFile ''media[]'' (Filename m) (Data m)]))\<rparr>]"
  using UpdateStatusWithMedia_wire [OF assms, of dec status m] resolve_wire [OF assms(1)]
  by (simp add: media_request_def)

theorem C6_multipart_request_witness:
  "(case Some 0 of None \<Rightarrow> NewOptionals example_params | Some p \<Rightarrow> (p, example_params)) = (0, example_params)
   \<and> opts_Values example_params 0 = Some [(''status'', [''hi there'']), (''lat'', [''1.5''])]
   \<and> list_all (\<lambda>p. snd p \<noteq> []) [(''status'', [''hi there'']), (''lat'', [''1.5''])]
   \<and> wire (snd (UpdateStatusWithMedia example_env example_client decode_twitterError ''hello''
        (Some example_media) (Some 0) example_params)) =
      [\<lparr>Method = ''POST'',
        URL = ''https://api.twitter.com/1.1/statuses/update_with_media.json?lat=1.5&status=hi+there'',
        Header = [(''Content-Type'', ''multipart/form-data;boundary=XYZ'')],
        ReqBody = Some (multipart_body ''XYZ''
          [FormField ''status'' ''hello'', FormField ''status'' ''hi there'', FormField ''lat'' ''1.5'',
           FormFile ''media[]'' ''a.png'' ''PNGDATA''])\<rparr>]"
proof -
  let ?vs = "[(''status'', [''hi there'']), (''lat'', [''1.5''])]"
  have r: "(case Some 0 of None \<Rightarrow> NewOptionals example_params | Some p \<Rightarrow> (p, example_params)) = (0, example_params)"
    by simp
  have h1: "opts_Values example_params 0 = Some ?vs"
    by (simp add: opts_Values_def example_params_def)
  have h2: "\<forall>(n, v) \<in> set ?vs. v \<noteq> []" by simp
  have h3: "url_ok example_env (apiURL @ ''/statuses/update_with_media.json?'' @ Encode ?vs)"
    by (simp add: example_env_def)
  have h4: "client example_client = Some (\<lambda>r. Inr \<lparr>StatusCode = 200, Body = (''{}'', None)\<rparr>)"
    by (simp add: example_client_def)
  from C6_multipart_request [OF r h1 h2 h3 h4, of decode_twitterError "''hello''" example_media]
  have "wire (snd (UpdateStatusWithMedia example_env example_client decode_twitterError ''hello''
        (Some example_media) (Some 0) example_params)) =
      [\<lparr>Method = ''POST'',
        URL = ''https://api.twitter.com/1.1/statuses/update_with_media.json?lat=1.5&status=hi+there'',
        Header = [(''Content-Type'', ''multipart/form-data;boundary=XYZ'')],
        ReqBody = Some (multipart_body ''XYZ''
          [FormField ''status'' ''hello'', FormField ''status'' ''hi there'', FormField ''lat'' ''1.5'',
           FormFile ''media[]'' ''a.png'' ''PNGDATA''])\<rparr>]"
    by (simp add: Encode_example_params apiURL_def example_env_def example_params_def example_media_def)
  with r h1 show ?thesis by simp
qed

text \<open>
  C6 as stated fails: for the status \<^verbatim>\<open>hello\<close> and no container the query string of the
  URL is empty, so the URL does not carry the status.
\<close>

theorem C6_counterexample:
  "URL (hd (wire (snd (UpdateStatusWithMedia example_env example_client decode_twitterError ''hello''
        (Some example_media) None example_world))))
     = ''https://api.twitter.com/1.1/statuses/update_with_media.json?''"
proof -
  have r: "(case None of None \<Rightarrow> NewOptionals example_world | Some p \<Rightarrow> (p, example_world))
             = (0, example_world\<lparr>store := [[]]\<rparr>)"
    by (simp add: NewOptionals_def example_world_def)
  have v: "opts_Values (example_world\<lparr>store := [[]]\<rparr>) 0 = Some []"
    by (simp add: opts_Values_def)
  have n: "\<forall>(n, v) \<in> set ([] :: Values). v \<noteq> []" by simp
  have u: "url_ok example_env (apiURL @ ''/statuses/update_with_media.json?'' @ Encode [])"
    by (simp add: example_env_def)
  have c: "client example_client = Some (\<lambda>r. Inr \<lparr>StatusCode = 200, Body = (''{}'', None)\<rparr>)"
    by (simp add: example_client_def)
  from UpdateStatusWithMedia_wire [OF r v n u c, of decode_twitterError "''hello''" example_media]
  show ?thesis
    by (simp add: media_request_def Encode_def apiURL_def example_world_def)
qed

subsection \<open>The result of the multipart upload\<close>

lemma UpdateStatusWithMedia_no_tweet:
  "fst (UpdateStatusWithMedia e c dec status media opts w) = Return (t, err) \<Longrightarrow> t = None \<and> err \<noteq> None"
  by (auto simp: UpdateStatusWithMedia_def Let_def client_Do_def CreateFormFile_def Decoder_Decode_nil
      split: prod.splits option.splits outcome.splits sum.splits if_splits)

text \<open>
  C10: for a response within 2xx, \<open>UpdateStatusWithMedia\<close> returns no tweet and an
  error: the error of reading the first JSON value of the body, or else
  \<^verbatim>\<open>InvalidUnmarshalError\<close> for the nil pointer it decodes into. Whatever the inputs, it
  never returns a tweet and never returns without an error.
\<close>

theorem C10_media_decodes_into_nil:
  assumes "(case opts of None \<Rightarrow> NewOptionals w | Some p \<Rightarrow> (p, w)) = (p', w1)"
    and "opts_Values w1 p' = Some values"
    and "\<forall>(n, v) \<in> set values. v \<noteq> []"
    and "url_ok e (apiURL @ ''/statuses/update_with_media.json?'' @ Encode values)"
    and "client c = Some (\<lambda>r. Inr res)"
    and "200 \<le> StatusCode res" and "StatusCode res \<le> 299"
  shows "fst (UpdateStatusWithMedia e c dec status (Some m) opts w) =
           Return (None, Some (case readValue e (Body res) of
                                 Inl err \<Rightarrow> err | Inr data \<Rightarrow> InvalidUnmarshalError))
       \<and> (\<forall>c' status' media' opts' w0 t err.
            fst (UpdateStatusWithMedia e c' dec status' media' opts' w0) = Return (t, err)
              \<longrightarrow> t = None \<and> err \<noteq> None)"
  using assms(6,7) UpdateStatusWithMedia_no_tweet [of e _ dec]
  by (simp add: UpdateStatusWithMedia_built [OF assms(1-5)] Let_def checkResponse_2xx)

theorem C10_media_decodes_into_nil_witness:
  "(case None of None \<Rightarrow> NewOptionals example_world | Some p \<Rightarrow> (p, example_world))
      = (0, example_world\<lparr>store := [[]]\<rparr>)
   \<and> opts_Values (example_world\<lparr>store := [[]]\<rparr>) 0 = Some []
   \<and> client example_client = Some (\<lambda>r. Inr \<lparr>StatusCode = 200, Body = (''{}'', None)\<rparr>)
   \<and> (200::int) \<le> 200 \<and> (200::int) \<le> 299
   \<and> fst (UpdateStatusWithMedia example_env example_client decode_twitterError ''hello''
        (Some example_media) None example_world) = Return (None, Some InvalidUnmarshalError)"
proof -
  let ?res = "\<lparr>StatusCode = 200, Body = (''{}'', None)\<rparr>"
  have r: "(case None of None \<Rightarrow> NewOptionals example_world | Some p \<Rightarrow> (p, example_world))
             = (0, example_world\<lparr>store := [[]]\<rparr>)"
    by (simp add: NewOptionals_def example_world_def)
  have v: "opts_Values (example_world\<lparr>store := [[]]\<rparr>) 0 = Some []"
    by (simp add: opts_Values_def)
  have n: "\<forall>(n, v) \<in> set ([] :: Values). v \<noteq> []" by simp
  have u: "url_ok example_env (apiURL @ ''/statuses/update_with_media.json?'' @ Encode [])"
    by (simp add: example_env_def)
  have c: "client example_client = Some (\<lambda>r. Inr ?res)"
    by (simp add: example_client_def)
  have s1: "200 \<le> StatusCode ?res" by simp
  have s2: "StatusCode ?res \<le> 299" by simp
  from C10_media_decodes_into_nil [OF r v n u c s1 s2, of decode_twitterError "''hello''" example_media]
  have "fst (UpdateStatusWithMedia example_env example_client decode_twitterError ''hello''
        (Some example_media) None example_world) = Return (None, Some InvalidUnmarshalError)"
    by (simp add: example_env_def)
  with r v n c show ?thesis by simp
qed

subsection \<open>A nil container is replaced by a new one\<close>




































end
